theory Spec2Isabelle
  imports Main "HOL-Library.Sublist"
begin

section \<open>The session user-profile store of \<^verbatim>\<open>src/agent.py\<close>\<close>

text \<open>
  The first-party logic of the agent is the dataclass \<^verbatim>\<open>UserData\<close> with its two
  methods and the three function tools of \<^verbatim>\<open>Assistant\<close>. Python strings are
  modelled as \<^typ>\<open>string\<close>; only emptiness, equality and concatenation of strings
  are used, so the unit a character stands for does not matter. Python integers are
  unbounded and are modelled as \<^typ>\<open>int\<close>.
\<close>

subsection \<open>Data\<close>

text \<open>
  \<^verbatim>\<open>UserInfo\<close> (lines 26-31): \<^verbatim>\<open>id: str\<close>, \<^verbatim>\<open>name: str\<close>, \<^verbatim>\<open>age: int | None\<close>. The
  fields carry the prefix \<open>info_\<close> because \<open>id\<close> is a constant of HOL and because
  \<^verbatim>\<open>UserData\<close> has fields \<^verbatim>\<open>name\<close> and \<^verbatim>\<open>age\<close> of its own.
\<close>

record UserInfo =
  info_id :: string
  info_name :: string
  info_age :: "int option"

text \<open>
  \<^verbatim>\<open>UserData\<close> (lines 33-38). The job context is opaque to this code, hence the type
  parameter. The field \<^verbatim>\<open>age\<close> is annotated \<^verbatim>\<open>int\<close>, but Python does not enforce the
  annotation and \<^verbatim>\<open>get_user_info\<close> tests \<^verbatim>\<open>self.age is not None\<close>; the stored value is
  therefore an \<^typ>\<open>int option\<close>, so that the test can be written as the source has it.
  That no reachable state stores \<open>None\<close> is a theorem below, not an assumption.
\<close>

record 'c UserData =
  ctx :: "'c option"
  name :: string
  age :: "int option"

text \<open>
  The dataclass constructor as \<^verbatim>\<open>entrypoint\<close> calls it, \<^verbatim>\<open>UserData(ctx=ctx)\<close>: the
  default factories \<^verbatim>\<open>str\<close> and \<^verbatim>\<open>int\<close> give the empty string and \<open>0\<close>.
\<close>

definition UserData_init :: "'c option \<Rightarrow> 'c UserData" where
  "UserData_init c = \<lparr>ctx = c, name = [], age = Some 0\<rparr>"

subsection \<open>The identifier source\<close>

text \<open>
  \<^verbatim>\<open>uuid.uuid4()\<close> belongs to the Python standard library. It is modelled as a supply
  of identifier strings: the source is the sequence of the strings still to be drawn,
  and a draw returns its head and leaves its tail.
\<close>

type_synonym uuid_source = "nat \<Rightarrow> string"

definition uuid4 :: "uuid_source \<Rightarrow> string \<times> uuid_source" where
  "uuid4 src = (src 0, \<lambda>k. src (Suc k))"

subsection \<open>The methods of \<^verbatim>\<open>UserData\<close>\<close>

text \<open>
  \<^verbatim>\<open>set_user_info\<close> (lines 40-49) builds the record with a new identifier, then
  assigns \<^verbatim>\<open>self.name\<close> and \<^verbatim>\<open>self.age\<close>, and returns the record. The model returns
  the record, the updated object and the rest of the identifier source.
\<close>

definition set_user_info ::
  "'c UserData \<Rightarrow> string \<Rightarrow> int \<Rightarrow> uuid_source \<Rightarrow> UserInfo \<times> 'c UserData \<times> uuid_source" where
  "set_user_info self n a src =
     (let (i, src') = uuid4 src;
          user_info = \<lparr>info_id = i, info_name = n, info_age = Some a\<rparr>
      in (user_info, self\<lparr>name := n, age := Some a\<rparr>, src'))"

text \<open>
  \<^verbatim>\<open>get_user_info\<close> (lines 51-55). A Python string is true exactly when it is not
  empty. An identifier is drawn only on the branch that builds a record.
\<close>

definition get_user_info ::
  "'c UserData \<Rightarrow> uuid_source \<Rightarrow> UserInfo option \<times> 'c UserData \<times> uuid_source" where
  "get_user_info self src =
     (if name self \<noteq> [] \<and> age self \<noteq> None
      then (let (i, src') = uuid4 src
            in (Some \<lparr>info_id = i, info_name = name self, info_age = age self\<rparr>, self, src'))
      else (None, self, src))"

subsection \<open>Rendering integers\<close>

text \<open>
  The f-strings of the tools format an \<^verbatim>\<open>int\<close> as Python's \<^verbatim>\<open>str\<close> does: decimal
  digits without leading zeros, and a minus sign before a negative number; \<^verbatim>\<open>None\<close>
  is formatted as the word \<^verbatim>\<open>None\<close>. The interpreter's configurable bound on the
  number of digits of such a conversion (4300 by default) is a setting of the runtime,
  not of this code, and is not modelled.
\<close>

definition digits :: string where
  "digits = ''0123456789''"

function str_nat :: "nat \<Rightarrow> string" where
  "str_nat n = (if n < 10 then [digits ! n] else str_nat (n div 10) @ [digits ! (n mod 10)])"
  by pat_completeness auto
termination
  by (relation "measure (\<lambda>n. n)") auto

declare str_nat.simps [simp del]

definition str_int :: "int \<Rightarrow> string" where
  "str_int i = (if i < 0 then CHR ''-'' # str_nat (nat (- i)) else str_nat (nat i))"

definition str_age :: "int option \<Rightarrow> string" where
  "str_age a = (case a of None \<Rightarrow> ''None'' | Some i \<Rightarrow> str_int i)"

subsection \<open>The function tools of \<^verbatim>\<open>Assistant\<close>\<close>

text \<open>
  A tool receives the run context, whose \<^verbatim>\<open>userdata\<close> is the session's \<^verbatim>\<open>UserData\<close>
  object. What a tool can read or change is collected in one record: that object, the
  identifier source, and the lines written to the logger \<^verbatim>\<open>agent\<close>.
\<close>

record 'c session =
  userdata :: "'c UserData"
  uuids :: uuid_source
  logged :: "string list"

definition sunny :: string where
  "sunny = ''sunny with a temperature of 70 degrees.''"

definition not_set :: string where
  "not_set = ''I don't know your name. Please introduce your name and your age''"

text \<open>\<^verbatim>\<open>lookup_weather\<close> (lines 75-87): one log line, then the canned answer.\<close>

definition lookup_weather :: "'c session \<Rightarrow> string \<Rightarrow> string \<times> 'c session" where
  "lookup_weather s location =
     (sunny, s\<lparr>logged := logged s @ [''Looking up weather for '' @ location]\<rparr>)"

text \<open>
  \<^verbatim>\<open>set_user_data\<close> (lines 89-100): the record that \<^verbatim>\<open>set_user_info\<close> returns is
  dropped, and the answer is formatted from the arguments.
\<close>

definition set_user_data :: "'c session \<Rightarrow> string \<Rightarrow> int \<Rightarrow> string \<times> 'c session" where
  "set_user_data s n a =
     (let (user_info, self', src') = set_user_info (userdata s) n a (uuids s)
      in (''Okay, now I will remember your name is '' @ n @ '' and you are '' @ str_int a
            @ '' year old.'',
          s\<lparr>userdata := self', uuids := src'\<rparr>))"

text \<open>
  \<^verbatim>\<open>get_user_data\<close> (lines 102-110). An instance of a dataclass that defines neither
  \<^verbatim>\<open>__bool__\<close> nor \<^verbatim>\<open>__len__\<close> is true, so \<^verbatim>\<open>if user_info\<close> tests for \<^verbatim>\<open>None\<close>.
\<close>

definition get_user_data :: "'c session \<Rightarrow> string \<times> 'c session" where
  "get_user_data s =
     (let (user_info, self', src') = get_user_info (userdata s) (uuids s);
          s' = s\<lparr>userdata := self', uuids := src'\<rparr>
      in case user_info of
           Some u \<Rightarrow> (''Your name: '' @ info_name u @ '' and your age: '' @ str_age (info_age u), s')
         | None \<Rightarrow> (not_set, s'))"

subsection \<open>Sessions as sequences of calls\<close>

text \<open>
  The runtime creates the object once (\<^verbatim>\<open>entrypoint\<close>, line 124) and then invokes tools
  one at a time. A session is therefore a list of calls applied from left to right.
  The two methods are calls as well, so that the records they return can be observed.
  \<open>step\<close> gives the records that \<^verbatim>\<open>set_user_info\<close> and \<^verbatim>\<open>get_user_info\<close> return
  in the course of one call (a tool makes one such call and drops the record), and the
  session after it.
\<close>

definition init_session :: "'c option \<Rightarrow> uuid_source \<Rightarrow> 'c session" where
  "init_session c src = \<lparr>userdata = UserData_init c, uuids = src, logged = []\<rparr>"

datatype call =
    SetUserInfo string int
  | GetUserInfo
  | LookupWeather string
  | SetUserData string int
  | GetUserData

fun step :: "'c session \<Rightarrow> call \<Rightarrow> UserInfo list \<times> 'c session" where
  "step s (SetUserInfo n a) =
     (let (r, self', src') = set_user_info (userdata s) n a (uuids s)
      in ([r], s\<lparr>userdata := self', uuids := src'\<rparr>))"
| "step s GetUserInfo =
     (let (r, self', src') = get_user_info (userdata s) (uuids s)
      in (case r of None \<Rightarrow> [] | Some u \<Rightarrow> [u], s\<lparr>userdata := self', uuids := src'\<rparr>))"
| "step s (LookupWeather location) = ([], snd (lookup_weather s location))"
| "step s (SetUserData n a) =
     ([fst (set_user_info (userdata s) n a (uuids s))], snd (set_user_data s n a))"
| "step s GetUserData =
     (case fst (get_user_info (userdata s) (uuids s)) of None \<Rightarrow> [] | Some u \<Rightarrow> [u],
      snd (get_user_data s))"

fun run :: "'c session \<Rightarrow> call list \<Rightarrow> UserInfo list \<times> 'c session" where
  "run s [] = ([], s)"
| "run s (c # cs) =
     (let (rs, s') = step s c; (rs', s'') = run s' cs in (rs @ rs', s''))"

text \<open>The calls that store a non-empty name.\<close>

fun stores_name :: "call \<Rightarrow> bool" where
  "stores_name (SetUserInfo n a) = (n \<noteq> [])"
| "stores_name (SetUserData n a) = (n \<noteq> [])"
| "stores_name c = False"

subsection \<open>Reading a decimal numeral\<close>

text \<open>
  What ``the age in decimal'' means is fixed independently of the rendering above: the
  value of a string of decimal digits read from left to right, with an optional minus
  sign before it, and the shape of the numeral that Python's \<^verbatim>\<open>str\<close> produces for an
  \<^verbatim>\<open>int\<close>, which is \<^verbatim>\<open>0\<close>, or digits that do not start with \<^verbatim>\<open>0\<close>, or a minus sign
  before such digits. A value has exactly one numeral of that shape.
\<close>

definition is_digit :: "char \<Rightarrow> bool" where
  "is_digit c = (48 \<le> (of_char c :: nat) \<and> (of_char c :: nat) \<le> 57)"

definition digit_value :: "char \<Rightarrow> nat" where
  "digit_value c = of_char c - 48"

fun decimal_nat :: "nat \<Rightarrow> string \<Rightarrow> nat option" where
  "decimal_nat acc [] = Some acc"
| "decimal_nat acc (c # cs) =
     (if is_digit c then decimal_nat (10 * acc + digit_value c) cs else None)"

definition read_nat :: "string \<Rightarrow> nat option" where
  "read_nat ds = (if ds = [] then None else decimal_nat 0 ds)"

definition read_int :: "string \<Rightarrow> int option" where
  "read_int ds =
     (case ds of
        [] \<Rightarrow> None
      | c # cs \<Rightarrow>
          if c = CHR ''-'' then map_option (\<lambda>v. - int v) (read_nat cs)
          else map_option int (read_nat ds))"

definition positive_numeral :: "string \<Rightarrow> bool" where
  "positive_numeral ds =
     (case ds of [] \<Rightarrow> False | c # cs \<Rightarrow> c \<in> set ''123456789'' \<and> list_all is_digit cs)"

definition canonical_int :: "string \<Rightarrow> bool" where
  "canonical_int ds =
     (ds = ''0'' \<or> positive_numeral ds \<or>
      (case ds of [] \<Rightarrow> False | c # cs \<Rightarrow> c = CHR ''-'' \<and> positive_numeral cs))"

subsection \<open>The tools with exceptions as values\<close>

text \<open>
  The two profile tools once more, with the outcome of the body as a sum whose left
  summand is a raised exception. Reading an attribute of \<^verbatim>\<open>None\<close> raises
  \<^verbatim>\<open>AttributeError\<close>: \<^verbatim>\<open>get_user_data\<close> reads \<^verbatim>\<open>user_info.name\<close> and \<^verbatim>\<open>user_info.age\<close>
  (line 109) under the guard \<^verbatim>\<open>if user_info\<close> (line 108). The body of \<^verbatim>\<open>set_user_data\<close>
  has no step that raises and no \<^verbatim>\<open>raise\<close> of its own. As in the rendering above, the
  interpreter's bound on the digits of a conversion is not modelled.
\<close>

datatype py_error = AttributeError

definition attribute :: "'a option \<Rightarrow> ('a \<Rightarrow> 'b) \<Rightarrow> py_error + 'b" where
  "attribute obj field = (case obj of None \<Rightarrow> Inl AttributeError | Some x \<Rightarrow> Inr (field x))"

definition set_user_data_outcome ::
  "'c session \<Rightarrow> string \<Rightarrow> int \<Rightarrow> py_error + string \<times> 'c session" where
  "set_user_data_outcome s n a =
     (let (user_info, self', src') = set_user_info (userdata s) n a (uuids s)
      in Inr (''Okay, now I will remember your name is '' @ n @ '' and you are '' @ str_int a
                @ '' year old.'',
              s\<lparr>userdata := self', uuids := src'\<rparr>))"

definition get_user_data_outcome :: "'c session \<Rightarrow> py_error + string \<times> 'c session" where
  "get_user_data_outcome s =
     (let (user_info, self', src') = get_user_info (userdata s) (uuids s);
          s' = s\<lparr>userdata := self', uuids := src'\<rparr>
      in if user_info \<noteq> None
         then (case attribute user_info info_name of
                 Inl e \<Rightarrow> Inl e
               | Inr n \<Rightarrow>
                   (case attribute user_info info_age of
                      Inl e \<Rightarrow> Inl e
                    | Inr a \<Rightarrow>
                        Inr (''Your name: '' @ n @ '' and your age: '' @ str_age a, s')))
         else Inr (not_set, s'))"

section \<open>Auxiliary facts\<close>

subsection \<open>The decimal rendering is injective\<close>

lemma distinct_digits: "distinct digits"
  by (simp add: digits_def)

lemma length_digits: "length digits = 10"
  by (simp add: digits_def)

lemma digit_eq_iff: "a < 10 \<Longrightarrow> b < 10 \<Longrightarrow> digits ! a = digits ! b \<longleftrightarrow> a = b"
  by (simp add: nth_eq_iff_index_eq distinct_digits length_digits)

lemma str_nat_not_Nil: "str_nat n \<noteq> []"
  by (subst str_nat.simps) simp

lemma str_nat_length_one: "length (str_nat n) = 1 \<longleftrightarrow> n < 10"
  by (subst str_nat.simps) (simp add: str_nat_not_Nil)

lemma str_nat_inj: "str_nat m = str_nat n \<Longrightarrow> m = n"
proof (induction m arbitrary: n rule: str_nat.induct)
  case (1 m)
  show ?case
  proof (cases "m < 10")
    case True
    with "1.prems" have n: "n < 10"
      using str_nat_length_one [of m] str_nat_length_one [of n] by simp
    from True n "1.prems" have "digits ! m = digits ! n"
      by (simp add: str_nat.simps)
    with True n show ?thesis by (simp add: digit_eq_iff)
  next
    case False
    with "1.prems" have n: "\<not> n < 10"
      using str_nat_length_one [of m] str_nat_length_one [of n] by simp
    from False have m_eq: "str_nat m = str_nat (m div 10) @ [digits ! (m mod 10)]"
      by (subst str_nat.simps) simp
    from n have n_eq: "str_nat n = str_nat (n div 10) @ [digits ! (n mod 10)]"
      by (subst str_nat.simps) simp
    from "1.prems" m_eq n_eq
    have pre: "str_nat (m div 10) = str_nat (n div 10)"
      and lst: "digits ! (m mod 10) = digits ! (n mod 10)"
      by simp_all
    from "1.IH" [OF False pre] have d: "m div 10 = n div 10" .
    from lst have r: "m mod 10 = n mod 10"
      by (simp add: digit_eq_iff)
    from d r show ?thesis
      by (metis div_mult_mod_eq)
  qed
qed

lemma str_nat_no_sign: "hd (str_nat n) \<noteq> CHR ''-''"
proof (induction n rule: str_nat.induct)
  case (1 n)
  show ?case
  proof (cases "n < 10")
    case True
    then have "n \<in> {0, 1, 2, 3, 4, 5, 6, 7, 8, 9}" by auto
    then show ?thesis
      by (subst str_nat.simps) (auto simp: digits_def)
  next
    case False
    with 1 show ?thesis
      by (subst str_nat.simps) (simp add: str_nat_not_Nil)
  qed
qed

lemma str_int_inj: "str_int i = str_int j \<Longrightarrow> i = j"
proof -
  assume eq: "str_int i = str_int j"
  have neg: "hd (str_int k) = CHR ''-'' \<longleftrightarrow> k < 0" for k
    by (simp add: str_int_def str_nat_no_sign)
  from eq have "i < 0 \<longleftrightarrow> j < 0"
    using neg [of i] neg [of j] by simp
  with eq show ?thesis
    by (auto simp: str_int_def dest!: str_nat_inj)
qed

lemma str_int_examples:
  "str_int 0 = ''0''" "str_int 30 = ''30''" "str_int (- 7) = ''-7''" "str_int 1234 = ''1234''"
  by (simp_all add: str_int_def str_nat.simps digits_def)

subsection \<open>The rendering is the canonical numeral of its value\<close>

lemma read_int_examples: "read_int ''-120'' = Some (- 120)" "read_int ''007'' = Some 7" "read_int ''-'' = None"
  "read_int ''12a'' = None" "\<not> canonical_int ''007''" "\<not> canonical_int ''-0''"
  "canonical_int ''-120''" "canonical_int ''0''" "\<not> canonical_int []" "\<not> canonical_int ''-''"
  by (simp_all add: read_int_def read_nat_def is_digit_def digit_value_def canonical_int_def
      positive_numeral_def)

lemma below_ten: "n < 10 \<Longrightarrow> n \<in> {0, 1, 2, 3, 4, 5, 6, 7, 8, 9 :: nat}"
  by auto

lemma digit_is_digit: "n < 10 \<Longrightarrow> is_digit (digits ! n)"
  by (drule below_ten) (auto simp: digits_def is_digit_def)

lemma digit_value_digit: "n < 10 \<Longrightarrow> digit_value (digits ! n) = n"
  by (drule below_ten) (auto simp: digits_def digit_value_def)

lemma positive_numeral_digit: "0 < n \<Longrightarrow> n < 10 \<Longrightarrow> positive_numeral [digits ! n]"
  by (drule below_ten) (auto simp: digits_def positive_numeral_def)

lemma str_nat_0: "str_nat 0 = ''0''"
  by (simp add: str_nat.simps digits_def)

lemma str_nat_small: "n < 10 \<Longrightarrow> str_nat n = [digits ! n]"
  by (subst str_nat.simps) simp

lemma str_nat_large:
  "\<not> n < 10 \<Longrightarrow> str_nat n = str_nat (n div 10) @ [digits ! (n mod 10)]"
  by (subst str_nat.simps) simp

lemma decimal_nat_snoc:
  "decimal_nat acc (xs @ [c]) =
     (case decimal_nat acc xs of
        None \<Rightarrow> None
      | Some v \<Rightarrow> if is_digit c then Some (10 * v + digit_value c) else None)"
  by (induction xs arbitrary: acc) simp_all

lemma decimal_nat_str_nat: "decimal_nat 0 (str_nat n) = Some n"
proof (induction n rule: str_nat.induct)
  case (1 n)
  show ?case
  proof (cases "n < 10")
    case True
    then show ?thesis
      by (simp add: str_nat_small digit_is_digit digit_value_digit)
  next
    case False
    have "n mod 10 < 10" by simp
    with False "1.IH" show ?thesis
      by (simp add: str_nat_large decimal_nat_snoc digit_is_digit digit_value_digit)
  qed
qed

lemma read_nat_str_nat: "read_nat (str_nat n) = Some n"
  by (simp add: read_nat_def str_nat_not_Nil decimal_nat_str_nat)

lemma positive_numeral_snoc:
  "positive_numeral xs \<Longrightarrow> is_digit c \<Longrightarrow> positive_numeral (xs @ [c])"
  by (cases xs) (simp_all add: positive_numeral_def)

lemma positive_numeral_str_nat: "0 < n \<Longrightarrow> positive_numeral (str_nat n)"
proof (induction n rule: str_nat.induct)
  case (1 n)
  show ?case
  proof (cases "n < 10")
    case True
    with "1.prems" show ?thesis
      by (simp add: str_nat_small positive_numeral_digit)
  next
    case False
    then have "0 < n div 10" by simp
    with False "1.IH" have "positive_numeral (str_nat (n div 10))" by simp
    moreover have "is_digit (digits ! (n mod 10))" by (simp add: digit_is_digit)
    ultimately show ?thesis
      using False by (simp add: str_nat_large positive_numeral_snoc)
  qed
qed

lemma read_int_str_int: "read_int (str_int a) = Some a"
proof (cases "a < 0")
  case True
  then show ?thesis
    by (simp add: str_int_def read_int_def read_nat_str_nat)
next
  case False
  obtain c cs where eq: "str_nat (nat a) = c # cs"
    using str_nat_not_Nil [of "nat a"] by (cases "str_nat (nat a)") auto
  with str_nat_no_sign [of "nat a"] have "c \<noteq> CHR ''-''" by simp
  moreover have "read_nat (c # cs) = Some (nat a)"
    using read_nat_str_nat [of "nat a"] eq by simp
  ultimately show ?thesis
    using False eq by (simp add: str_int_def read_int_def)
qed

lemma canonical_int_str_int: "canonical_int (str_int a)"
proof -
  consider "a < 0" | "a = 0" | "0 < a" by linarith
  then show ?thesis
  proof cases
    case 1
    then have "positive_numeral (str_nat (nat (- a)))"
      by (simp add: positive_numeral_str_nat)
    with 1 show ?thesis by (simp add: canonical_int_def str_int_def)
  next
    case 2
    then show ?thesis by (simp add: canonical_int_def str_int_def str_nat_0)
  next
    case 3
    then have "positive_numeral (str_nat (nat a))"
      by (simp add: positive_numeral_str_nat)
    with 3 show ?thesis by (simp add: canonical_int_def str_int_def)
  qed
qed


subsection \<open>The methods in closed form\<close>

lemma set_user_info_eq:
  "set_user_info self n a src =
     (\<lparr>info_id = src 0, info_name = n, info_age = Some a\<rparr>,
      self\<lparr>name := n, age := Some a\<rparr>, \<lambda>k. src (Suc k))"
  by (simp add: set_user_info_def uuid4_def)

lemma get_user_info_present:
  "name self \<noteq> [] \<Longrightarrow> age self = Some a \<Longrightarrow>
   get_user_info self src =
     (Some \<lparr>info_id = src 0, info_name = name self, info_age = Some a\<rparr>, self,
      \<lambda>k. src (Suc k))"
  by (simp add: get_user_info_def uuid4_def)

lemma sunny_not_unavailable: "\<not> sublist ''unavailable'' sunny"
  by code_simp

subsection \<open>The answers of the tools\<close>

lemma set_user_data_message:
  "fst (set_user_data s n a) =
     ''Okay, now I will remember your name is '' @ n @ '' and you are '' @ str_int a
       @ '' year old.''"
  by (simp add: set_user_data_def set_user_info_eq)

lemma get_user_data_message:
  "fst (get_user_data s) =
     (case age (userdata s) of
        None \<Rightarrow> not_set
      | Some a \<Rightarrow>
          if name (userdata s) = [] then not_set
          else ''Your name: '' @ name (userdata s) @ '' and your age: '' @ str_int a)"
  by (simp add: get_user_data_def get_user_info_def uuid4_def str_age_def split: option.splits)

lemma str_int_eq_iff: "(str_int a = str_int b) = (a = b)"
  using str_int_inj by blast

subsection \<open>Runs\<close>

lemma run_Cons:
  "fst (run s (c # cs)) = fst (step s c) @ fst (run (snd (step s c)) cs)"
  "snd (run s (c # cs)) = snd (run (snd (step s c)) cs)"
  by (simp_all split: prod.splits)

text \<open>A call returns no record and draws nothing, or returns one record and draws once.\<close>

lemma step_draw:
  "step s c = (rs, s') \<Longrightarrow>
     rs = [] \<and> uuids s' = uuids s \<or>
     (\<exists>r. rs = [r] \<and> info_id r = uuids s 0 \<and> uuids s' = (\<lambda>k. uuids s (Suc k)))"
  by (cases c)
    (auto simp: set_user_info_eq get_user_info_def uuid4_def lookup_weather_def
       set_user_data_def get_user_data_def split: if_splits)

lemma run_ids_drawn:
  "info_id ` set (fst (run s cs)) \<subseteq> range (uuids s)"
proof (induction cs arbitrary: s)
  case Nil
  show ?case by simp
next
  case (Cons c cs)
  obtain rs s' where st: "step s c = (rs, s')" by (cases "step s c")
  from step_draw [OF st] have a: "info_id ` set rs \<subseteq> range (uuids s)"
    and b: "range (uuids s') \<subseteq> range (uuids s)"
    by auto
  have "info_id ` set (fst (run s' cs)) \<subseteq> range (uuids s')"
    by (rule Cons.IH)
  then have c: "info_id ` set (fst (run s' cs)) \<subseteq> range (uuids s)"
    using b by (rule subset_trans)
  from a c st show ?case
    by (simp add: run_Cons image_Un del: run.simps)
qed

text \<open>What a call does to the stored object.\<close>

lemma step_userdata:
  "userdata (snd (step s c)) =
     (case c of
        SetUserInfo n a \<Rightarrow> (userdata s)\<lparr>name := n, age := Some a\<rparr>
      | SetUserData n a \<Rightarrow> (userdata s)\<lparr>name := n, age := Some a\<rparr>
      | _ \<Rightarrow> userdata s)"
  by (cases c)
    (simp_all add: set_user_info_eq get_user_info_def uuid4_def lookup_weather_def
       set_user_data_def get_user_data_def split: option.splits)

text \<open>
  A tool leaves the session as the method it calls leaves it, so the records that
  \<open>step\<close> lists for a tool are those of the method call the tool makes.
\<close>

lemma tools_call_methods:
  "snd (step s (SetUserData n a)) = snd (step s (SetUserInfo n a))"
  "snd (step s GetUserData) = snd (step s GetUserInfo)"
  "fst (step s (SetUserData n a)) = fst (step s (SetUserInfo n a))"
  "fst (step s GetUserData) = fst (step s GetUserInfo)"
  by (simp_all add: set_user_data_def get_user_data_def set_user_info_eq get_user_info_def
      uuid4_def split: option.splits)

lemma run_age_present:
  "age (userdata s) \<noteq> None \<Longrightarrow> age (userdata (snd (run s cs))) \<noteq> None"
proof (induction cs arbitrary: s)
  case Nil
  then show ?case by simp
next
  case (Cons c cs)
  from Cons.prems have "age (userdata (snd (step s c))) \<noteq> None"
    by (simp add: step_userdata split: call.splits)
  then have "age (userdata (snd (run (snd (step s c)) cs))) \<noteq> None"
    by (rule Cons.IH)
  then show ?case by (simp add: run_Cons del: run.simps)
qed

lemma run_ctx: "ctx (userdata (snd (run s cs))) = ctx (userdata s)"
proof (induction cs arbitrary: s)
  case Nil
  show ?case by simp
next
  case (Cons c cs)
  have "ctx (userdata (snd (step s c))) = ctx (userdata s)"
    by (simp add: step_userdata split: call.splits)
  with Cons.IH [of "snd (step s c)"] show ?case
    by (simp add: run_Cons del: run.simps)
qed

lemma run_name_empty:
  "name (userdata s) = [] \<Longrightarrow> \<not> list_ex stores_name cs \<Longrightarrow>
   name (userdata (snd (run s cs))) = []"
proof (induction cs arbitrary: s)
  case Nil
  then show ?case by simp
next
  case (Cons c cs)
  from Cons.prems have "name (userdata (snd (step s c))) = []"
    by (auto simp: step_userdata split: call.splits)
  moreover from Cons.prems have "\<not> list_ex stores_name cs" by simp
  ultimately have "name (userdata (snd (run (snd (step s c)) cs))) = []"
    by (rule Cons.IH)
  then show ?case by (simp add: run_Cons del: run.simps)
qed

section \<open>The claims\<close>

text \<open>
  C1. Set, then get: for a non-empty name \<open>n\<close> and any age \<open>a\<close> (zero included),
  \<^verbatim>\<open>get_user_info\<close> on the object that \<^verbatim>\<open>set_user_info(n, a)\<close> has updated returns a
  record, not \<^verbatim>\<open>None\<close>, whose name is \<open>n\<close> and whose age is \<open>a\<close>. Its identifier is the
  second string of the source, the first having gone to the record that set returned.
\<close>

theorem set_then_get:
  assumes "n \<noteq> []"
    and "set_user_info self n a src = (r, self', src')"
  shows "fst (get_user_info self' src')
           = Some \<lparr>info_id = src 1, info_name = n, info_age = Some a\<rparr>"
  using assms by (auto simp: set_user_info_eq get_user_info_present)

theorem set_then_get_witness:
  "''Ann'' \<noteq> [] \<and>
   set_user_info (UserData_init (None :: nat option)) ''Ann'' 0 (\<lambda>k. replicate k CHR ''u'')
     = (\<lparr>info_id = [], info_name = ''Ann'', info_age = Some 0\<rparr>,
        \<lparr>ctx = None, name = ''Ann'', age = Some 0\<rparr>, \<lambda>k. replicate (Suc k) CHR ''u'') \<and>
   fst (get_user_info \<lparr>ctx = (None :: nat option), name = ''Ann'', age = Some 0\<rparr>
          (\<lambda>k. replicate (Suc k) CHR ''u''))
     = Some \<lparr>info_id = ''u'', info_name = ''Ann'', info_age = Some 0\<rparr>"
proof -
  have ne: "''Ann'' \<noteq> []" by simp
  have st: "set_user_info (UserData_init (None :: nat option)) ''Ann'' 0
              (\<lambda>k. replicate k CHR ''u'')
     = (\<lparr>info_id = [], info_name = ''Ann'', info_age = Some 0\<rparr>,
        \<lparr>ctx = None, name = ''Ann'', age = Some 0\<rparr>, \<lambda>k. replicate (Suc k) CHR ''u'')"
    by (simp add: set_user_info_def uuid4_def UserData_init_def)
  from set_then_get [OF ne st] ne st show ?thesis by simp
qed

text \<open>
  C2. Get before any set: on the object as the constructor leaves it (empty name, age
  zero) \<^verbatim>\<open>get_user_info\<close> returns \<^verbatim>\<open>None\<close>, changing nothing and drawing no
  identifier, and the tool \<^verbatim>\<open>get_user_data\<close> answers with the fixed request to
  introduce oneself. The tool has no error result: its value is always a string.
\<close>

theorem get_before_set:
  "get_user_info (UserData_init c) src = (None, UserData_init c, src) \<and>
   fst (get_user_data (init_session c src)) = not_set \<and>
   not_set = ''I don't know your name. Please introduce your name and your age''"
  by (simp add: get_user_info_def get_user_data_def init_session_def UserData_init_def
      not_set_def)

text \<open>
  C3. Last write wins: after \<^verbatim>\<open>set_user_info(n1, a1)\<close> and then
  \<^verbatim>\<open>set_user_info(n2, a2)\<close>, from any object, the object is the one that the second call
  alone would have produced; it stores \<open>n2\<close> and \<open>a2\<close>, the second record carries them,
  and what \<^verbatim>\<open>get_user_info\<close> then returns depends on \<open>n2\<close> and \<open>a2\<close> only. Both calls
  return a record for every name and every age: there is no validation and no error.
\<close>

theorem set_last_write_wins:
  assumes "set_user_info self n1 a1 src = (r1, self1, src1)"
    and "set_user_info self1 n2 a2 src1 = (r2, self2, src2)"
  shows "self2 = fst (snd (set_user_info self n2 a2 src)) \<and>
         name self2 = n2 \<and> age self2 = Some a2 \<and>
         info_name r2 = n2 \<and> info_age r2 = Some a2 \<and>
         map_option (\<lambda>u. (info_name u, info_age u)) (fst (get_user_info self2 src2))
           = (if n2 = [] then None else Some (n2, Some a2))"
  using assms by (auto simp: set_user_info_eq get_user_info_def uuid4_def)

theorem set_last_write_wins_witness:
  "set_user_info (UserData_init (None :: nat option)) ''Ann'' 30 (\<lambda>k. replicate k CHR ''u'')
     = (\<lparr>info_id = [], info_name = ''Ann'', info_age = Some 30\<rparr>,
        \<lparr>ctx = None, name = ''Ann'', age = Some 30\<rparr>, \<lambda>k. replicate (Suc k) CHR ''u'') \<and>
   set_user_info \<lparr>ctx = (None :: nat option), name = ''Ann'', age = Some 30\<rparr> ''Bob'' (- 4)
       (\<lambda>k. replicate (Suc k) CHR ''u'')
     = (\<lparr>info_id = ''u'', info_name = ''Bob'', info_age = Some (- 4)\<rparr>,
        \<lparr>ctx = None, name = ''Bob'', age = Some (- 4)\<rparr>,
        \<lambda>k. replicate (Suc (Suc k)) CHR ''u'') \<and>
   map_option (\<lambda>u. (info_name u, info_age u))
       (fst (get_user_info \<lparr>ctx = (None :: nat option), name = ''Bob'', age = Some (- 4)\<rparr>
          (\<lambda>k. replicate (Suc (Suc k)) CHR ''u'')))
     = Some (''Bob'', Some (- 4))"
proof -
  have st1: "set_user_info (UserData_init (None :: nat option)) ''Ann'' 30
               (\<lambda>k. replicate k CHR ''u'')
     = (\<lparr>info_id = [], info_name = ''Ann'', info_age = Some 30\<rparr>,
        \<lparr>ctx = None, name = ''Ann'', age = Some 30\<rparr>, \<lambda>k. replicate (Suc k) CHR ''u'')"
    by (simp add: set_user_info_def uuid4_def UserData_init_def)
  have st2: "set_user_info \<lparr>ctx = (None :: nat option), name = ''Ann'', age = Some 30\<rparr>
               ''Bob'' (- 4) (\<lambda>k. replicate (Suc k) CHR ''u'')
     = (\<lparr>info_id = ''u'', info_name = ''Bob'', info_age = Some (- 4)\<rparr>,
        \<lparr>ctx = None, name = ''Bob'', age = Some (- 4)\<rparr>,
        \<lambda>k. replicate (Suc (Suc k)) CHR ''u'')"
    by (simp add: set_user_info_def uuid4_def)
  from set_last_write_wins [OF st1 st2] show ?thesis
    by (simp add: set_user_info_def uuid4_def UserData_init_def)
qed

text \<open>
  C4. \<^verbatim>\<open>lookup_weather\<close> does not look at its location: for every location, the empty
  string included, and in every session it returns the same canned sentence. The word
  ``unavailable'' does not occur in that sentence, so the tool never reports a
  location as unavailable, whatever its docstring announces.
\<close>

theorem lookup_weather_constant:
  "fst (lookup_weather s location) = ''sunny with a temperature of 70 degrees.'' \<and>
   fst (lookup_weather s []) = fst (lookup_weather s location) \<and>
   fst (lookup_weather s location) = fst (lookup_weather s' location') \<and>
   \<not> sublist ''unavailable'' (fst (lookup_weather s location))"
  using sunny_not_unavailable by (simp add: lookup_weather_def sunny_def)

text \<open>
  C5. For every name and age, \<^verbatim>\<open>set_user_data\<close> leaves the session as one call of
  \<^verbatim>\<open>set_user_info\<close> with the same arguments leaves it, and returns the confirmation
  sentence with the name inserted unchanged and the age as its decimal numeral. The
  body never raises: its outcome is the returned pair for every input, so there is no
  failure branch. The numeral is the canonical one and reads back as the age, and the
  sentence determines the age and the name: two ages, or two names, give the same
  sentence only if they are equal. Three instances are spelled out: an ordinary input,
  the empty name with a negative age (nothing is validated), and a name with markup
  and an apostrophe (nothing is escaped).
\<close>

theorem set_user_data_confirms:
  "set_user_data s n a =
     (''Okay, now I will remember your name is '' @ n @ '' and you are '' @ str_int a
        @ '' year old.'',
      s\<lparr>userdata := fst (snd (set_user_info (userdata s) n a (uuids s))),
        uuids := snd (snd (set_user_info (userdata s) n a (uuids s)))\<rparr>) \<and>
   set_user_data_outcome s n a = Inr (set_user_data s n a) \<and>
   canonical_int (str_int a) \<and>
   read_int (str_int a) = Some a \<and>
   (fst (set_user_data s n a) = fst (set_user_data s' n b)) = (a = b) \<and>
   (fst (set_user_data s n a) = fst (set_user_data s' m a)) = (n = m) \<and>
   fst (set_user_data s ''Ann'' 30)
     = ''Okay, now I will remember your name is Ann and you are 30 year old.'' \<and>
   fst (set_user_data s [] (- 1))
     = ''Okay, now I will remember your name is  and you are -1 year old.'' \<and>
   fst (set_user_data s ''<b>O'Neil & co</b>'' 1234)
     = ''Okay, now I will remember your name is <b>O'Neil & co</b> and you are 1234 year old.''"
proof -
  have eq: "set_user_data s n a =
     (''Okay, now I will remember your name is '' @ n @ '' and you are '' @ str_int a
        @ '' year old.'',
      s\<lparr>userdata := fst (snd (set_user_info (userdata s) n a (uuids s))),
        uuids := snd (snd (set_user_info (userdata s) n a (uuids s)))\<rparr>)"
    by (simp add: set_user_data_def set_user_info_eq)
  have out: "set_user_data_outcome s n a = Inr (set_user_data s n a)"
    by (simp add: set_user_data_outcome_def set_user_data_def set_user_info_eq)
  have age_inj: "(fst (set_user_data s n a) = fst (set_user_data s' n b)) = (a = b)"
    by (simp add: set_user_data_message str_int_eq_iff)
  have name_inj: "(fst (set_user_data s n a) = fst (set_user_data s' m a)) = (n = m)"
    by (simp add: set_user_data_message)
  have d: "str_int 30 = ''30''" "str_int (- 1) = ''-1''" "str_int 1234 = ''1234''"
    by (simp_all add: str_int_def str_nat.simps digits_def)
  have p1: "fst (set_user_data s ''Ann'' 30)
     = ''Okay, now I will remember your name is Ann and you are 30 year old.''"
    by (simp add: set_user_data_message d)
  have p2: "fst (set_user_data s [] (- 1))
     = ''Okay, now I will remember your name is  and you are -1 year old.''"
    by (simp add: set_user_data_message d)
  have p3: "fst (set_user_data s ''<b>O'Neil & co</b>'' 1234)
     = ''Okay, now I will remember your name is <b>O'Neil & co</b> and you are 1234 year old.''"
    by (simp add: set_user_data_message d)
  from eq out canonical_int_str_int read_int_str_int age_inj name_inj p1 p2 p3
  show ?thesis by (intro conjI)
qed

theorem set_user_data_confirms_witness:
  "set_user_data (init_session (None :: nat option) (\<lambda>k. replicate k CHR ''u'')) ''Ann'' 30
     = (''Okay, now I will remember your name is Ann and you are 30 year old.'',
        \<lparr>userdata = \<lparr>ctx = None, name = ''Ann'', age = Some 30\<rparr>,
          uuids = \<lambda>k. replicate (Suc k) CHR ''u'', logged = []\<rparr>) \<and>
   set_user_data_outcome (init_session (None :: nat option) (\<lambda>k. replicate k CHR ''u''))
       ''Ann'' 30
     = Inr (''Okay, now I will remember your name is Ann and you are 30 year old.'',
            \<lparr>userdata = \<lparr>ctx = None, name = ''Ann'', age = Some 30\<rparr>,
              uuids = \<lambda>k. replicate (Suc k) CHR ''u'', logged = []\<rparr>)"
proof -
  have d: "str_int 30 = ''30''"
    by (simp add: str_int_def str_nat.simps digits_def)
  note t = set_user_data_confirms
    [of "init_session (None :: nat option) (\<lambda>k. replicate k CHR ''u'')" "''Ann''" 30]
  have a: "set_user_data (init_session (None :: nat option)
        (\<lambda>k. replicate k CHR ''u'')) ''Ann'' 30
     = (''Okay, now I will remember your name is Ann and you are 30 year old.'',
        \<lparr>userdata = \<lparr>ctx = None, name = ''Ann'', age = Some 30\<rparr>,
          uuids = \<lambda>k. replicate (Suc k) CHR ''u'', logged = []\<rparr>)"
    using conjunct1 [OF t]
    by (simp add: d set_user_info_eq init_session_def UserData_init_def)
  from t have "set_user_data_outcome (init_session (None :: nat option)
        (\<lambda>k. replicate k CHR ''u'')) ''Ann'' 30
     = Inr (set_user_data (init_session (None :: nat option)
        (\<lambda>k. replicate k CHR ''u'')) ''Ann'' 30)"
    by (rule conjunct1 [OF conjunct2])
  with a show ?thesis by simp
qed

text \<open>
  C6. \<^verbatim>\<open>get_user_data\<close> has two results. When \<^verbatim>\<open>get_user_info\<close> returns a record, the
  answer is the sentence with the stored name and the stored age; when it returns
  \<^verbatim>\<open>None\<close>, the answer is the fixed request to introduce oneself. The two cannot
  be confused: the answer is the fixed request exactly when \<^verbatim>\<open>get_user_info\<close> returns
  \<^verbatim>\<open>None\<close>, which is when the stored name is empty or the stored age is \<^verbatim>\<open>None\<close>.
  The body never raises, since the attributes of the record are read under the guard
  only. In the sentence the age is the canonical decimal numeral of the stored integer,
  which reads back as that integer; the word \<^verbatim>\<open>None\<close> is never printed as an age.
  Three instances are spelled out: the answers after a set with an ordinary input,
  with a negative age, and with the empty name.
\<close>

theorem get_user_data_two_results:
  "fst (get_user_data s) =
     (if fst (get_user_info (userdata s) (uuids s)) = None then not_set
      else ''Your name: '' @ name (userdata s) @ '' and your age: ''
             @ str_age (age (userdata s))) \<and>
   (fst (get_user_data s) = not_set) = (fst (get_user_info (userdata s) (uuids s)) = None) \<and>
   (fst (get_user_info (userdata s) (uuids s)) = None)
     = (name (userdata s) = [] \<or> age (userdata s) = None) \<and>
   get_user_data_outcome s = Inr (get_user_data s) \<and>
   fst (get_user_data s) =
     (case age (userdata s) of
        None \<Rightarrow> not_set
      | Some i \<Rightarrow>
          if name (userdata s) = [] then not_set
          else ''Your name: '' @ name (userdata s) @ '' and your age: '' @ str_int i) \<and>
   str_age None = ''None'' \<and>
   str_age (Some a) = str_int a \<and>
   canonical_int (str_int a) \<and>
   read_int (str_int a) = Some a \<and>
   fst (get_user_data (snd (set_user_data s ''Ann'' 30))) = ''Your name: Ann and your age: 30'' \<and>
   fst (get_user_data (snd (set_user_data s ''Bo'' (- 12))))
     = ''Your name: Bo and your age: -12'' \<and>
   fst (get_user_data (snd (set_user_data s [] 30)))
     = ''I don't know your name. Please introduce your name and your age''"
proof -
  have o1: "fst (get_user_data s) =
     (if fst (get_user_info (userdata s) (uuids s)) = None then not_set
      else ''Your name: '' @ name (userdata s) @ '' and your age: ''
             @ str_age (age (userdata s)))"
    by (simp add: get_user_data_def get_user_info_def uuid4_def)
  have o2: "(fst (get_user_data s) = not_set)
              = (fst (get_user_info (userdata s) (uuids s)) = None)"
    by (simp add: get_user_data_def get_user_info_def uuid4_def not_set_def)
  have o3: "(fst (get_user_info (userdata s) (uuids s)) = None)
              = (name (userdata s) = [] \<or> age (userdata s) = None)"
    by (simp add: get_user_info_def uuid4_def)
  have out: "get_user_data_outcome s = Inr (get_user_data s)"
    by (simp add: get_user_data_outcome_def get_user_data_def get_user_info_def uuid4_def
        attribute_def)
  have sa: "str_age None = ''None''" "str_age (Some a) = str_int a"
    by (simp_all add: str_age_def)
  have d: "str_int 30 = ''30''" "str_int (- 12) = ''-12''"
    by (simp_all add: str_int_def str_nat.simps digits_def)
  have st: "userdata (snd (set_user_data s n' a')) = (userdata s)\<lparr>name := n', age := Some a'\<rparr>"
    for n' a'
    by (simp add: set_user_data_def set_user_info_eq)
  have p1: "fst (get_user_data (snd (set_user_data s ''Ann'' 30)))
     = ''Your name: Ann and your age: 30''"
    by (simp add: get_user_data_message st d)
  have p2: "fst (get_user_data (snd (set_user_data s ''Bo'' (- 12))))
     = ''Your name: Bo and your age: -12''"
    by (simp add: get_user_data_message st d)
  have p3: "fst (get_user_data (snd (set_user_data s [] 30)))
     = ''I don't know your name. Please introduce your name and your age''"
    by (simp add: get_user_data_message st not_set_def)
  from o1 o2 o3 out get_user_data_message sa canonical_int_str_int read_int_str_int p1 p2 p3
  show ?thesis by (intro conjI)
qed


theorem get_user_data_two_results_witness:
  "fst (get_user_data \<lparr>userdata = \<lparr>ctx = (None :: nat option), name = ''Ann'', age = Some 0\<rparr>,
          uuids = \<lambda>k. replicate k CHR ''u'', logged = []\<rparr>)
     = ''Your name: Ann and your age: 0'' \<and>
   get_user_data_outcome \<lparr>userdata = \<lparr>ctx = (None :: nat option), name = ''Ann'', age = Some 0\<rparr>,
          uuids = \<lambda>k. replicate k CHR ''u'', logged = []\<rparr>
     = Inr (''Your name: Ann and your age: 0'',
            \<lparr>userdata = \<lparr>ctx = None, name = ''Ann'', age = Some 0\<rparr>,
              uuids = \<lambda>k. replicate (Suc k) CHR ''u'', logged = []\<rparr>)"
proof -
  have d: "str_int 0 = ''0''"
    by (simp add: str_int_def str_nat.simps digits_def)
  note t = get_user_data_two_results
    [of "\<lparr>userdata = \<lparr>ctx = (None :: nat option), name = ''Ann'', age = Some 0\<rparr>,
          uuids = \<lambda>k. replicate k CHR ''u'', logged = []\<rparr>"]
  have a: "fst (get_user_data \<lparr>userdata = \<lparr>ctx = (None :: nat option), name = ''Ann'',
          age = Some 0\<rparr>, uuids = \<lambda>k. replicate k CHR ''u'', logged = []\<rparr>)
     = ''Your name: Ann and your age: 0''"
    using conjunct1 [OF conjunct2 [OF conjunct2 [OF conjunct2 [OF conjunct2 [OF t]]]]]
    by (simp add: d)
  from t have b: "get_user_data_outcome \<lparr>userdata = \<lparr>ctx = (None :: nat option), name = ''Ann'',
          age = Some 0\<rparr>, uuids = \<lambda>k. replicate k CHR ''u'', logged = []\<rparr>
     = Inr (get_user_data \<lparr>userdata = \<lparr>ctx = (None :: nat option), name = ''Ann'',
          age = Some 0\<rparr>, uuids = \<lambda>k. replicate k CHR ''u'', logged = []\<rparr>)"
    by (rule conjunct1 [OF conjunct2 [OF conjunct2 [OF conjunct2]]])
  have c: "snd (get_user_data \<lparr>userdata = \<lparr>ctx = (None :: nat option), name = ''Ann'',
          age = Some 0\<rparr>, uuids = \<lambda>k. replicate k CHR ''u'', logged = []\<rparr>)
     = \<lparr>userdata = \<lparr>ctx = None, name = ''Ann'', age = Some 0\<rparr>,
              uuids = \<lambda>k. replicate (Suc k) CHR ''u'', logged = []\<rparr>"
    by (simp add: get_user_data_def get_user_info_def uuid4_def)
  from a b c show ?thesis
    by (simp add: prod_eq_iff)
qed

text \<open>
  C7. Fresh identifiers: when the identifier source never repeats a string (it is
  injective), the records returned by \<^verbatim>\<open>set_user_info\<close> and \<^verbatim>\<open>get_user_info\<close> in the
  course of any sequence of calls, direct or through the tools, have pairwise distinct
  identifiers. Nothing is assumed about the names and ages, so this holds as well when
  they do not change from one call to the next.
\<close>

theorem identifiers_fresh:
  "inj (uuids s) \<Longrightarrow> distinct (map info_id (fst (run s cs)))"
proof (induction cs arbitrary: s)
  case Nil
  show ?case by simp
next
  case (Cons c cs)
  obtain rs s' where st: "step s c = (rs, s')" by (cases "step s c")
  from step_draw [OF st] show ?case
  proof
    assume "rs = [] \<and> uuids s' = uuids s"
    with Cons st show ?thesis by (simp add: run_Cons del: run.simps)
  next
    assume "\<exists>r. rs = [r] \<and> info_id r = uuids s 0 \<and> uuids s' = (\<lambda>k. uuids s (Suc k))"
    then obtain r where r: "rs = [r]" "info_id r = uuids s 0"
      and s': "uuids s' = (\<lambda>k. uuids s (Suc k))" by blast
    from Cons.prems s' have inj': "inj (uuids s')"
      by (auto simp: inj_def)
    from Cons.prems s' have "uuids s 0 \<notin> range (uuids s')"
      by (auto simp: inj_def)
    with run_ids_drawn [of s' cs] have "uuids s 0 \<notin> info_id ` set (fst (run s' cs))"
      by blast
    with Cons.IH [OF inj'] st r show ?thesis
      by (simp add: run_Cons del: run.simps)
  qed
qed

theorem identifiers_fresh_witness:
  "inj (uuids (init_session (None :: nat option) (\<lambda>k. replicate k CHR ''u''))) \<and>
   distinct (map info_id (fst (run (init_session (None :: nat option) (\<lambda>k. replicate k CHR ''u''))
     [SetUserData ''Ann'' 30, GetUserInfo, GetUserInfo, SetUserInfo ''Ann'' 30, GetUserData])))"
proof -
  have h: "inj (uuids (init_session (None :: nat option) (\<lambda>k. replicate k CHR ''u'')))"
    by (simp add: init_session_def inj_def)
  from h identifiers_fresh [OF h] show ?thesis ..
qed

text \<open>
  C8. In every state that a session reaches from the constructed object, by any
  sequence of calls, the stored age is an integer and never \<^verbatim>\<open>None\<close>. In such a state
  the test \<^verbatim>\<open>self.age is not None\<close> of \<^verbatim>\<open>get_user_info\<close> is true, and the method
  returns a record exactly when the stored name is not empty.
\<close>

theorem reachable_age_never_None:
  "age (userdata (snd (run (init_session c src) cs))) \<noteq> None \<and>
   (fst (get_user_info (userdata (snd (run (init_session c src) cs))) src') \<noteq> None)
     = (name (userdata (snd (run (init_session c src) cs))) \<noteq> [])"
proof -
  have "age (userdata (init_session c src)) \<noteq> None"
    by (simp add: init_session_def UserData_init_def)
  then have "age (userdata (snd (run (init_session c src) cs))) \<noteq> None"
    by (rule run_age_present)
  then show ?thesis
    by (simp add: get_user_info_def uuid4_def)
qed

text \<open>
  C9. Frame: \<^verbatim>\<open>set_user_info\<close> changes the fields \<^verbatim>\<open>name\<close> and \<^verbatim>\<open>age\<close> of the object and
  nothing else, so \<^verbatim>\<open>ctx\<close> keeps its value; \<^verbatim>\<open>get_user_info\<close> and the tool
  \<^verbatim>\<open>get_user_data\<close> leave the whole object as it was. The tool \<^verbatim>\<open>set_user_data\<close> and
  every sequence of calls keep \<^verbatim>\<open>ctx\<close> as well.
\<close>

theorem frame_of_set_and_get:
  "fst (snd (set_user_info self n a src)) = self\<lparr>name := n, age := Some a\<rparr> \<and>
   ctx (fst (snd (set_user_info self n a src))) = ctx self \<and>
   fst (snd (get_user_info self src)) = self \<and>
   userdata (snd (get_user_data s)) = userdata s \<and>
   ctx (userdata (snd (set_user_data s n a))) = ctx (userdata s) \<and>
   ctx (userdata (snd (run s cs))) = ctx (userdata s)"
  by (simp add: set_user_info_eq get_user_info_def uuid4_def get_user_data_def
      set_user_data_def run_ctx split: option.splits)

text \<open>
  C10. A set with the empty name: \<^verbatim>\<open>set_user_info\<close> returns its record and the tool
  \<^verbatim>\<open>set_user_data\<close> returns its confirmation, for any age. From then on, as long as no
  call stores a non-empty name, \<^verbatim>\<open>get_user_info\<close> returns \<^verbatim>\<open>None\<close> and \<^verbatim>\<open>get_user_data\<close>
  returns the fixed request to introduce oneself, as if nothing had been set.
\<close>

theorem empty_name_reads_unset:
  assumes "\<not> list_ex stores_name cs"
  shows "fst (set_user_info (userdata s) [] a (uuids s))
           = \<lparr>info_id = uuids s 0, info_name = [], info_age = Some a\<rparr> \<and>
         fst (set_user_data s [] a)
           = ''Okay, now I will remember your name is  and you are '' @ str_int a
               @ '' year old.'' \<and>
         userdata (snd (set_user_data s [] a))
           = fst (snd (set_user_info (userdata s) [] a (uuids s))) \<and>
         fst (get_user_info (userdata (snd (run (snd (set_user_data s [] a)) cs))) src') = None \<and>
         fst (get_user_data (snd (run (snd (set_user_data s [] a)) cs))) = not_set"
proof -
  have "name (userdata (snd (set_user_data s [] a))) = []"
    by (simp add: set_user_data_def set_user_info_eq)
  with assms have "name (userdata (snd (run (snd (set_user_data s [] a)) cs))) = []"
    by (simp add: run_name_empty)
  then show ?thesis
    by (simp add: set_user_data_def set_user_info_eq get_user_info_def get_user_data_def)
qed

theorem empty_name_reads_unset_witness:
  "\<not> list_ex stores_name [GetUserData, LookupWeather ''Oslo'', SetUserInfo [] 5, GetUserInfo] \<and>
   fst (set_user_data (init_session (None :: nat option) (\<lambda>k. replicate k CHR ''u'')) [] 7)
     = ''Okay, now I will remember your name is  and you are 7 year old.'' \<and>
   fst (get_user_data (snd (run
       (snd (set_user_data (init_session (None :: nat option) (\<lambda>k. replicate k CHR ''u'')) [] 7))
       [GetUserData, LookupWeather ''Oslo'', SetUserInfo [] 5, GetUserInfo])))
     = ''I don't know your name. Please introduce your name and your age''"
proof -
  have h: "\<not> list_ex stores_name
             [GetUserData, LookupWeather ''Oslo'', SetUserInfo [] 5, GetUserInfo]"
    by simp
  have d: "str_int 7 = ''7''"
    by (simp add: str_int_def str_nat.simps digits_def)
  note t = empty_name_reads_unset
    [OF h, where s = "init_session (None :: nat option) (\<lambda>k. replicate k CHR ''u'')" and a = 7]
  from t have a: "fst (set_user_data (init_session (None :: nat option)
        (\<lambda>k. replicate k CHR ''u'')) [] 7)
     = ''Okay, now I will remember your name is  and you are '' @ str_int 7 @ '' year old.''"
    by (rule conjunct1 [OF conjunct2])
  from t have b: "fst (get_user_data (snd (run
       (snd (set_user_data (init_session (None :: nat option) (\<lambda>k. replicate k CHR ''u'')) [] 7))
       [GetUserData, LookupWeather ''Oslo'', SetUserInfo [] 5, GetUserInfo])))
     = not_set"
    by (rule conjunct2 [OF conjunct2 [OF conjunct2 [OF conjunct2]]])
  from a d have a': "fst (set_user_data (init_session (None :: nat option)
        (\<lambda>k. replicate k CHR ''u'')) [] 7)
     = ''Okay, now I will remember your name is  and you are 7 year old.''"
    by simp
  from b have b': "fst (get_user_data (snd (run
       (snd (set_user_data (init_session (None :: nat option) (\<lambda>k. replicate k CHR ''u'')) [] 7))
       [GetUserData, LookupWeather ''Oslo'', SetUserInfo [] 5, GetUserInfo])))
     = ''I don't know your name. Please introduce your name and your age''"
    by (simp only: not_set_def)
  from h a' b' show ?thesis by (intro conjI)
qed

end
